theory Spec2Isabelle
  imports Complex_Main "HOL-Library.Char_ord" "HOL-Library.List_Lexorder"
begin

section \<open>PassKey: a shallow embedding of \<^verbatim>\<open>passkey.py\<close>\<close>

text \<open>
  The theory embeds the wordlist core of \<^verbatim>\<open>src/passkey.py\<close>: the leet transformer
  (\<^verbatim>\<open>make_leet\<close>), the date expander (\<^verbatim>\<open>generate_date_variations\<close>), the base-word
  generator, the combination engine, the strength scorer, the statistics aggregator and
  the improve and merge entry points.

  Conventions of the embedding.
  \<^item> A Python \<^verbatim>\<open>str\<close> is a \<^typ>\<open>string\<close>; a \<^typ>\<open>char\<close> stands for an ASCII character,
    and the case and class functions below are Python's on ASCII.
  \<^item> A Python \<^verbatim>\<open>list\<close> is a HOL list, a Python \<^verbatim>\<open>set\<close> is a HOL set.
  \<^item> Python does not fix the order in which a set is iterated. Wherever the source turns
    a set into a list (\<^verbatim>\<open>list(set(words))\<close>, \<^verbatim>\<open>list(passwords)\<close>, \<^verbatim>\<open>for pwd in passwords\<close>)
    the model takes that order as a parameter \<open>it\<close>, and \<open>set_iter_ok it\<close> says only that
    \<open>it\<close> lists every element of a finite set once.
  \<^item> Printing (banner, progress bar, messages) is left out; files and the answers typed
    by the user are arguments.
\<close>

subsection \<open>Characters and strings\<close>

definition isupper :: "char \<Rightarrow> bool" where
  "isupper c = (CHR ''A'' \<le> c \<and> c \<le> CHR ''Z'')"

definition islower :: "char \<Rightarrow> bool" where
  "islower c = (CHR ''a'' \<le> c \<and> c \<le> CHR ''z'')"

definition isdigit :: "char \<Rightarrow> bool" where
  "isdigit c = (CHR ''0'' \<le> c \<and> c \<le> CHR ''9'')"

text \<open>
  \<^verbatim>\<open>str.isspace\<close> on ASCII: tab, line feed, vertical tab, form feed, carriage return,
  the four separators \<^verbatim>\<open>\x1c\<close> to \<^verbatim>\<open>\x1f\<close>, and the space.
\<close>

definition isspace :: "char \<Rightarrow> bool" where
  "isspace c = (let n = (of_char c :: nat) in (9 \<le> n \<and> n \<le> 13) \<or> (28 \<le> n \<and> n \<le> 32))"

definition lower_char :: "char \<Rightarrow> char" where
  "lower_char c = (if isupper c then char_of (of_char c + (32::nat)) else c)"

definition upper_char :: "char \<Rightarrow> char" where
  "upper_char c = (if islower c then char_of (of_char c - (32::nat)) else c)"

definition lower :: "string \<Rightarrow> string" where
  "lower s = map lower_char s"

definition upper :: "string \<Rightarrow> string" where
  "upper s = map upper_char s"

text \<open>\<^verbatim>\<open>str.capitalize\<close>: the first character in upper case, the rest in lower case.\<close>

fun capitalize :: "string \<Rightarrow> string" where
  "capitalize [] = []"
| "capitalize (c # cs) = upper_char c # map lower_char cs"

text \<open>
  \<^verbatim>\<open>s.replace(old, new)\<close> where \<open>old\<close> is one character, which is the only way this
  program calls it.
\<close>

definition replace :: "char \<Rightarrow> string \<Rightarrow> string \<Rightarrow> string" where
  "replace old new s = concat (map (\<lambda>x. if x = old then new else [x]) s)"

text \<open>\<^verbatim>\<open>s.strip()\<close>: drops the white space at both ends.\<close>

definition strip :: "string \<Rightarrow> string" where
  "strip s = rev (dropWhile isspace (rev (dropWhile isspace s)))"

text \<open>\<^verbatim>\<open>xs[-n:]\<close> for a positive \<open>n\<close>: the last \<open>n\<close> elements, all of them if there are fewer.\<close>

definition last_n :: "nat \<Rightarrow> 'a list \<Rightarrow> 'a list" where
  "last_n n xs = drop (length xs - n) xs"

text \<open>\<^verbatim>\<open>str(n)\<close> of an integer: its decimal digits, with a minus sign when negative.\<close>

definition digit_char :: "nat \<Rightarrow> char" where
  "digit_char d = char_of (48 + d)"

function str_nat :: "nat \<Rightarrow> string" where
  "str_nat n = (if n < 10 then [digit_char n] else str_nat (n div 10) @ [digit_char (n mod 10)])"
  by pat_completeness auto
termination
  by (relation "measure id") auto

definition str_int :: "int \<Rightarrow> string" where
  "str_int i = (if i < 0 then CHR ''-'' # str_nat (nat (- i)) else str_nat (nat i))"

text \<open>\<^verbatim>\<open>range(start, stop, step)\<close> for a positive step, the only kind the program uses.\<close>

function py_range :: "int \<Rightarrow> int \<Rightarrow> int \<Rightarrow> int list" where
  "py_range start stop step =
     (if step \<le> 0 \<or> stop \<le> start then [] else start # py_range (start + step) stop step)"
  by pat_completeness auto
termination
  by (relation "measure (\<lambda>(start, stop, step). nat (stop - start))") auto

subsection \<open>Iteration order of a set\<close>

definition set_iter_ok :: "('a set \<Rightarrow> 'a list) \<Rightarrow> bool" where
  "set_iter_ok it = (\<forall>S. finite S \<longrightarrow> set (it S) = S \<and> distinct (it S))"

subsection \<open>Configuration and profile\<close>

text \<open>
  \<^verbatim>\<open>CONFIG["LEET"]\<close> is a dictionary from one letter to its replacement; Python iterates
  it in insertion order, so it is an association list. The default of \<^verbatim>\<open>read_config\<close>:
  \<^verbatim>\<open>
  "LEET": {'a': '4', 'e': '3', 'i': '1', 'o': '0',
           's': '5', 't': '7', 'g': '9', 'b': '8'}
  \<close>
\<close>

type_synonym leet_map = "(char \<times> string) list"

definition default_leet :: leet_map where
  "default_leet =
     [(CHR ''a'', ''4''), (CHR ''e'', ''3''), (CHR ''i'', ''1''), (CHR ''o'', ''0''),
      (CHR ''s'', ''5''), (CHR ''t'', ''7''), (CHR ''g'', ''9''), (CHR ''b'', ''8'')]"

text \<open>The class \<^verbatim>\<open>PasswordConfig\<close>.\<close>

record password_config =
  min_length :: int
  max_length :: int
  use_leet :: bool
  use_special_chars :: bool
  use_numbers :: bool
  use_modern_terms :: bool
  year_range :: "string list"
  special_chars :: "string list"
  modern_terms :: "string list"
  num_from :: int
  num_to :: int

text \<open>\<^verbatim>\<open>PasswordConfig()\<close> over the default \<^verbatim>\<open>CONFIG["global"]\<close> of \<^verbatim>\<open>read_config\<close>.\<close>

definition default_config :: password_config where
  "default_config =
     \<lparr> min_length = 6, max_length = 20,
       use_leet = True, use_special_chars = True, use_numbers = True, use_modern_terms = True,
       year_range = map str_int (py_range 1950 2026 1),
       special_chars = [''!'', ''@'', ''#'', ''$'', ''%'', ''&'', ''*'', ''_'', ''-'', ''+'', ''=''],
       modern_terms = [''ai'', ''crypto'', ''bitcoin'', ''nft'', ''meta'', ''chatgpt'', ''web3'',
         ''defi'', ''blockchain'', ''covid'', ''vaccine'', ''zoom'', ''tiktok'',
         ''2025'', ''2024'', ''2023'', ''gaming'', ''streaming'', ''cloud''],
       num_from = 0, num_to = 99 \<rparr>"

text \<open>
  The dataclass \<^verbatim>\<open>Profile\<close>; an empty string is an absent field. The field
  \<^verbatim>\<open>keywords\<close> is \<open>profile_keywords\<close> here, the plain name being reserved in Isabelle.
\<close>

record profile =
  name :: string
  surname :: string
  nickname :: string
  birthdate :: string
  partner_name :: string
  partner_nickname :: string
  partner_birthdate :: string
  child_name :: string
  child_nickname :: string
  child_birthdate :: string
  pet_name :: string
  company :: string
  profile_keywords :: "string list"
  email :: string
  phone :: string

definition empty_profile :: profile where
  "empty_profile =
     \<lparr> name = [], surname = [], nickname = [], birthdate = [],
       partner_name = [], partner_nickname = [], partner_birthdate = [],
       child_name = [], child_nickname = [], child_birthdate = [],
       pet_name = [], company = [], profile_keywords = [], email = [], phone = [] \<rparr>"

subsection \<open>Leet transformer\<close>

text \<open>
  \<^verbatim>\<open>
  def make_leet(self, word: str) -> str:
      leet_word = word.lower()
      for letter, leet_char in CONFIG["LEET"].items():
          leet_word = leet_word.replace(letter, leet_char)
      return leet_word
  \<close>
\<close>

definition make_leet :: "leet_map \<Rightarrow> string \<Rightarrow> string" where
  "make_leet leet word =
     fold (\<lambda>(letter, leet_char) leet_word. replace letter leet_char leet_word) leet (lower word)"

subsection \<open>Date variation expander\<close>

text \<open>
  \<^verbatim>\<open>
  def generate_date_variations(self, date: str) -> List[str]:
      if not date or len(date) != 8:
          return []
      variations = []
      dd, mm, yyyy = date[:2], date[2:4], date[4:]
      yy = yyyy[2:]
      yyy = yyyy[1:]
      variations.extend([
          dd, mm, yyyy, yy, yyy,
          dd + mm, mm + dd,
          dd + mm + yyyy, mm + dd + yyyy,
          dd + mm + yy, mm + dd + yy,
          yyyy + mm + dd, yyyy + dd + mm,
          yy + mm + dd, yy + dd + mm,
          dd[1], mm[1]  # Single digit
      ])
      return list(set(variations))
  \<close>
  Past the guard \<open>dd\<close> and \<open>mm\<close> have two characters, so \<^verbatim>\<open>dd[1]\<close> and \<^verbatim>\<open>mm[1]\<close> are in
  range.
\<close>

definition date_variation_list :: "string \<Rightarrow> string list" where
  "date_variation_list date =
     (let dd = take 2 date; mm = take 2 (drop 2 date); yyyy = drop 4 date;
          yy = drop 2 yyyy;
          yyy = drop 1 yyyy
      in [dd, mm, yyyy, yy, yyy,
          dd @ mm, mm @ dd,
          dd @ mm @ yyyy, mm @ dd @ yyyy,
          dd @ mm @ yy, mm @ dd @ yy,
          yyyy @ mm @ dd, yyyy @ dd @ mm,
          yy @ mm @ dd, yy @ dd @ mm,
          [dd ! 1], [mm ! 1]])"

definition generate_date_variations :: "(string set \<Rightarrow> string list) \<Rightarrow> string \<Rightarrow> string list" where
  "generate_date_variations it date =
     (if date = [] \<or> length date \<noteq> 8 then []
      else it (set (date_variation_list date)))"

subsection \<open>Base-word generator\<close>

text \<open>
  \<^verbatim>\<open>generate_base_words\<close>: the list \<open>words\<close> is built by one \<^verbatim>\<open>extend\<close> after the other,
  then the reversal loop runs over a copy of it (\<^verbatim>\<open>for word in words[:]\<close>) and appends
  \<^verbatim>\<open>word[::-1]\<close> for each word longer than three characters; the result is
  \<^verbatim>\<open>list(set(words))\<close>. In \<^verbatim>\<open>profile.name[0]\<close> the name is not empty.
\<close>

definition base_word_list :: "profile \<Rightarrow> string list" where
  "base_word_list p =
     (if name p \<noteq> [] then [name p, capitalize (name p), upper (name p)] else []) @
     (if surname p \<noteq> [] then [surname p, capitalize (surname p), upper (surname p)] else []) @
     (if nickname p \<noteq> [] then [nickname p, capitalize (nickname p)] else []) @
     (if name p \<noteq> [] \<and> surname p \<noteq> []
      then [name p @ surname p,
            surname p @ name p,
            capitalize (name p) @ capitalize (surname p),
            hd (name p) # surname p]
      else []) @
     (if partner_name p \<noteq> []
      then [partner_name p, capitalize (partner_name p)] @
           (if partner_nickname p \<noteq> []
            then [partner_nickname p, capitalize (partner_nickname p)] else [])
      else []) @
     (if child_name p \<noteq> []
      then [child_name p, capitalize (child_name p)] @
           (if child_nickname p \<noteq> []
            then [child_nickname p, capitalize (child_nickname p)] else [])
      else []) @
     (if pet_name p \<noteq> [] then [pet_name p, capitalize (pet_name p)] else []) @
     (if company p \<noteq> []
      then [company p, capitalize (company p), replace CHR '' '' [] (company p)] else []) @
     concat (map (\<lambda>kw. [kw, capitalize kw, upper kw]) (profile_keywords p)) @
     (if email p \<noteq> [] \<and> CHR ''@'' \<in> set (email p)
      then (let username = takeWhile (\<lambda>c. c \<noteq> CHR ''@'') (email p)
            in [username, capitalize username,
                replace CHR ''.'' [] username, replace CHR ''_'' [] username])
      else [])"

definition generate_base_words :: "(string set \<Rightarrow> string list) \<Rightarrow> profile \<Rightarrow> string list" where
  "generate_base_words it p =
     (let words = base_word_list p;
          words = words @ concat (map (\<lambda>word. if length word > 3 then [rev word] else []) words)
      in it (set words))"

subsection \<open>Combination engine\<close>

text \<open>
  \<^verbatim>\<open>generate_combinations\<close>. Every block of the source adds to the set \<open>passwords\<close>; a
  block under a condition adds nothing when the condition is false. The lists in the loops
  are \<^verbatim>\<open>separators[:3]\<close>, \<^verbatim>\<open>self.config.year_range[-10:]\<close>, \<^verbatim>\<open>base_words[:50]\<close>,
  \<^verbatim>\<open>range(num_from, min(num_to, 100), 11)\<close>, \<^verbatim>\<open>special_chars[:5]\<close>, \<^verbatim>\<open>years[-3:]\<close>,
  \<^verbatim>\<open>base_words[:20]\<close> and \<^verbatim>\<open>modern_terms[:15]\<close>. \<^verbatim>\<open>re.sub(r'\D', '', phone)\<close> keeps the
  digits. The leet block reads \<^verbatim>\<open>list(passwords)[:sample_size]\<close> with
  \<^verbatim>\<open>sample_size = min(len(passwords), 5000)\<close>. The last statement is
  \<^verbatim>\<open>
  passwords = {p for p in passwords
               if self.config.min_length <= len(p) <= self.config.max_length}
  \<close>
\<close>

definition generate_combinations ::
  "(string set \<Rightarrow> string list) \<Rightarrow> leet_map \<Rightarrow> password_config \<Rightarrow> profile \<Rightarrow> string set" where
  "generate_combinations it leet config profile =
     (let base_words = generate_base_words it profile;
          dates = it (set (concat (map (generate_date_variations it)
                    [birthdate profile, partner_birthdate profile, child_birthdate profile])));
          years = last_n 10 (year_range config);
          passwords = set base_words;
          separators = [[], ''_'', ''-'', ''.'', ''@'', ''!''];
          passwords = passwords \<union>
            set (concat (map (\<lambda>word. concat (map (\<lambda>date. concat (map (\<lambda>sep.
                   [word @ sep @ date, date @ sep @ word])
                 (take 3 separators))) dates)) base_words));
          passwords = passwords \<union>
            set (concat (map (\<lambda>word. concat (map (\<lambda>year. concat (map (\<lambda>sep.
                   [word @ sep @ year, year @ sep @ word])
                 (take 3 separators))) years)) base_words));
          passwords = passwords \<union>
            (if use_numbers config
             then set (concat (map (\<lambda>word. concat (map (\<lambda>num.
                    [word @ num, num @ word])
                  (map str_int (py_range (num_from config) (min (num_to config) 100) 11))))
                  (take 50 base_words)))
             else {});
          passwords = passwords \<union>
            (if use_special_chars config
             then set (concat (map (\<lambda>word. concat (map (\<lambda>char.
                    [word @ char, char @ word] @
                    map (\<lambda>year. word @ char @ year) (last_n 3 years))
                  (take 5 (special_chars config))))
                  (take 50 base_words)))
             else {});
          passwords = passwords \<union>
            (if use_modern_terms config
             then set (concat (map (\<lambda>word. concat (map (\<lambda>trm.
                    [word @ trm, trm @ word, word @ capitalize trm])
                  (take 15 (modern_terms config))))
                  (take 20 base_words)))
             else {});
          passwords = passwords \<union>
            (if email profile \<noteq> [] \<and> CHR ''@'' \<in> set (email profile)
             then (let username = takeWhile (\<lambda>c. c \<noteq> CHR ''@'') (email profile);
                       providers = [''gmail.com'', ''yahoo.com'', ''hotmail.com'', ''outlook.com'']
                   in set (map (\<lambda>provider. username @ ''@'' @ provider) providers))
             else {});
          passwords = passwords \<union>
            (if phone profile \<noteq> []
             then (let clean_phone = filter isdigit (phone profile)
                   in if length clean_phone \<ge> 4
                      then {last_n 4 clean_phone, last_n 6 clean_phone, last_n 8 clean_phone}
                      else {})
             else {});
          passwords = passwords \<union>
            (if use_leet config
             then (let sample_size = min (card passwords) 5000
                   in set (map (make_leet leet) (take sample_size (it passwords))))
             else {})
      in {p \<in> passwords. min_length config \<le> int (length p) \<and> int (length p) \<le> max_length config})"

subsection \<open>Wordlist improver and merger\<close>

text \<open>
  Both entry points read their files with
  \<^verbatim>\<open>words = [line.strip() for line in f if line.strip()]\<close>.
  A file system is a function from a file name to the lines of the file, \<open>None\<close> when
  \<^verbatim>\<open>os.path.isfile\<close> is false or reading raises.
\<close>

definition read_words :: "string list \<Rightarrow> string list" where
  "read_words lines = map strip (filter (\<lambda>line. strip line \<noteq> []) lines)"

text \<open>
  \<^verbatim>\<open>improve_wordlist\<close>. A missing or unreadable file gives \<^verbatim>\<open>set()\<close>. When there are more
  words than \<^verbatim>\<open>CONFIG["global"]["threshold"]\<close> the user is asked whether to continue, and
  any answer but \<^verbatim>\<open>y\<close> (after \<^verbatim>\<open>lower()\<close>) gives \<^verbatim>\<open>set()\<close> as well:
  \<^verbatim>\<open>
  if len(words) > CONFIG["global"]["threshold"]:
      confirm = input(...).lower()
      if confirm != 'y':
          return set()
  enhanced = set(words)
  for word in words[:1000]:
      enhanced.add(word.capitalize()); enhanced.add(word.upper()); enhanced.add(word.lower())
  if self.config.use_leet:
      for word in words[:500]:
          enhanced.add(self.make_leet(word))
  years = [str(y) for y in range(2020, 2026)]
  for word in words[:500]:
      for year in years:
          enhanced.add(f"{word}{year}"); enhanced.add(f"{year}{word}")
  if self.config.use_special_chars:
      for word in words[:300]:
          for char in self.config.special_chars[:3]:
              enhanced.add(f"{word}{char}")
  for word in words[:300]:
      for num in ['123', '1', '12', '01', '007']:
          enhanced.add(f"{word}{num}")
  enhanced = {w for w in enhanced
              if self.config.min_length <= len(w) <= self.config.max_length}
  \<close>
  The argument \<open>answer\<close> is the line the user types at the prompt.
\<close>

definition improve_wordlist ::
  "leet_map \<Rightarrow> password_config \<Rightarrow> int \<Rightarrow> (string \<Rightarrow> string list option) \<Rightarrow> string \<Rightarrow> string
     \<Rightarrow> string set" where
  "improve_wordlist leet config threshold fs answer input_file =
     (case fs input_file of
        None \<Rightarrow> {}
      | Some lines \<Rightarrow>
          (let words = read_words lines
           in if int (length words) > threshold \<and> lower answer \<noteq> ''y'' then {}
              else
                (let enhanced = set words;
                     enhanced = enhanced \<union>
                       set (concat (map (\<lambda>word. [capitalize word, upper word, lower word])
                         (take 1000 words)));
                     enhanced = enhanced \<union>
                       (if use_leet config
                        then set (map (make_leet leet) (take 500 words)) else {});
                     years = map str_int (py_range 2020 2026 1);
                     enhanced = enhanced \<union>
                       set (concat (map (\<lambda>word. concat (map (\<lambda>year.
                              [word @ year, year @ word]) years))
                         (take 500 words)));
                     enhanced = enhanced \<union>
                       (if use_special_chars config
                        then set (concat (map (\<lambda>word. map (\<lambda>char. word @ char)
                               (take 3 (special_chars config)))
                          (take 300 words)))
                        else {});
                     enhanced = enhanced \<union>
                       set (concat (map (\<lambda>word. map (\<lambda>num. word @ num)
                              [''123'', ''1'', ''12'', ''01'', ''007''])
                         (take 300 words)))
                 in {w \<in> enhanced.
                       min_length config \<le> int (length w) \<and> int (length w) \<le> max_length config})))"

text \<open>
  \<^verbatim>\<open>export_txt\<close> writes \<^verbatim>\<open>'\n'.join(sorted(passwords))\<close>; the model returns the lines
  written, in their order. Python compares strings by code point, which is the
  lexicographic order on \<^typ>\<open>string\<close>.
\<close>

definition export_txt :: "string set \<Rightarrow> string list" where
  "export_txt passwords = sorted_list_of_set passwords"

text \<open>
  \<^verbatim>\<open>
  def merge_wordlists(self, files: List[str], output_file: str):
      merged = set()
      for file in files:
          if not os.path.isfile(file):
              continue
          try:
              with open(file, 'r', encoding='utf-8', errors='ignore') as f:
                  words = [line.strip() for line in f if line.strip()]
                  merged.update(words)
          except Exception as e:
              print(...)
      merged = {w for w in merged
                if self.config.min_length <= len(w) <= self.config.max_length}
      self.export_txt(merged, output_file)
  \<close>
  The result of the model is what the function writes to \<^verbatim>\<open>output_file\<close>.
\<close>

definition merge_wordlists ::
  "password_config \<Rightarrow> (string \<Rightarrow> string list option) \<Rightarrow> string list \<Rightarrow> string list" where
  "merge_wordlists config fs files =
     (let merged = fold (\<lambda>file merged.
                      case fs file of None \<Rightarrow> merged
                      | Some lines \<Rightarrow> merged \<union> set (read_words lines)) files {};
          merged = {w \<in> merged.
                      min_length config \<le> int (length w) \<and> int (length w) \<le> max_length config}
      in export_txt merged)"

section \<open>Properties\<close>

subsection \<open>Auxiliary facts\<close>

lemma set_iter_ok_sorted: "set_iter_ok (sorted_list_of_set :: string set \<Rightarrow> string list)"
  by (simp add: set_iter_ok_def)

lemma set_iter_set: "set_iter_ok it \<Longrightarrow> set (it (set xs)) = set xs"
  by (simp add: set_iter_ok_def)

lemma set_iter_distinct: "set_iter_ok it \<Longrightarrow> distinct (it (set xs))"
  by (simp add: set_iter_ok_def)

lemma replace_append: "replace old new (xs @ ys) = replace old new xs @ replace old new ys"
  by (simp add: replace_def)

lemma fold_replace_append:
  "fold (\<lambda>(letter, leet_char) leet_word. replace letter leet_char leet_word) leet (xs @ ys) =
   fold (\<lambda>(letter, leet_char) leet_word. replace letter leet_char leet_word) leet xs @
   fold (\<lambda>(letter, leet_char) leet_word. replace letter leet_char leet_word) leet ys"
  by (induction leet arbitrary: xs ys) (auto simp: replace_append)

lemma make_leet_append: "make_leet leet (xs @ ys) = make_leet leet xs @ make_leet leet ys"
  by (simp add: make_leet_def lower_def fold_replace_append)

lemma make_leet_Nil: "make_leet leet [] = []"
  by (induction leet) (auto simp: make_leet_def lower_def replace_def)

lemma not_isupper_lower_char: "\<not> isupper (lower_char c)"
  unfolding lower_char_def isupper_def less_eq_char_def by auto

lemma lower_char_fix: "\<not> isupper x \<Longrightarrow> lower_char x = x"
  by (simp add: lower_char_def)

lemma make_leet_default_single:
  "make_leet default_leet [c] =
     [let x = lower_char c in
      if x = CHR ''a'' then CHR ''4'' else if x = CHR ''e'' then CHR ''3''
      else if x = CHR ''i'' then CHR ''1'' else if x = CHR ''o'' then CHR ''0''
      else if x = CHR ''s'' then CHR ''5'' else if x = CHR ''t'' then CHR ''7''
      else if x = CHR ''g'' then CHR ''9'' else if x = CHR ''b'' then CHR ''8'' else x]"
  by (simp add: make_leet_def default_leet_def lower_def replace_def Let_def)

lemma make_leet_default_single_idem:
  "make_leet default_leet (make_leet default_leet [c]) = make_leet default_leet [c]"
proof -
  have nu: "\<not> isupper (lower_char c)" by (rule not_isupper_lower_char)
  have digits: "\<not> isupper CHR ''4''" "\<not> isupper CHR ''3''" "\<not> isupper CHR ''1''"
    "\<not> isupper CHR ''0''" "\<not> isupper CHR ''5''" "\<not> isupper CHR ''7''"
    "\<not> isupper CHR ''9''" "\<not> isupper CHR ''8''"
    by (simp_all add: isupper_def)
  show ?thesis
    using nu digits
    by (simp add: make_leet_default_single Let_def lower_char_fix)
qed

lemma set_generate_date_variations:
  assumes "set_iter_ok it" "length date = 8"
  shows "set (generate_date_variations it date) = set (date_variation_list date)"
  using assms by (auto simp: generate_date_variations_def set_iter_set)

lemma set_generate_base_words:
  assumes ok: "set_iter_ok it"
  shows "set (generate_base_words it p) =
     set (base_word_list p) \<union>
     {rev word | word. word \<in> set (base_word_list p) \<and> length word > 3}"
proof -
  have "set (generate_base_words it p) =
      set (base_word_list p @
           concat (map (\<lambda>word. if length word > 3 then [rev word] else []) (base_word_list p)))"
    unfolding generate_base_words_def Let_def by (rule set_iter_set [OF ok])
  then show ?thesis by auto
qed

subsection \<open>Date variation expander\<close>

text \<open>
  C1. For a date of eight characters \<open>d1 d2 m1 m2 y1 y2 y3 y4\<close> (so for every valid eight-digit
  date) the expander returns the seventeen enumerated variants, each once, and nothing else:
  \<open>dd\<close>, \<open>mm\<close>, \<open>yyyy\<close>, \<open>yy\<close>, \<open>yyy\<close>, \<open>dd+mm\<close>, \<open>mm+dd\<close>, \<open>dd+mm+yyyy\<close>, \<open>mm+dd+yyyy\<close>,
  \<open>dd+mm+yy\<close>, \<open>mm+dd+yy\<close>, \<open>yyyy+mm+dd\<close>, \<open>yyyy+dd+mm\<close>, \<open>yy+mm+dd\<close>, \<open>yy+dd+mm\<close>, \<open>dd[1]\<close>,
  \<open>mm[1]\<close>. For \<^verbatim>\<open>"15031990"\<close> these are the seventeen strings of the specification, all
  different.
\<close>

theorem generate_date_variations_exact:
  assumes "set_iter_ok it"
  shows "(\<forall>d1 d2 m1 m2 y1 y2 y3 y4.
            set (generate_date_variations it [d1, d2, m1, m2, y1, y2, y3, y4]) =
              {[d1, d2], [m1, m2], [y1, y2, y3, y4], [y3, y4], [y2, y3, y4],
               [d1, d2, m1, m2], [m1, m2, d1, d2],
               [d1, d2, m1, m2, y1, y2, y3, y4], [m1, m2, d1, d2, y1, y2, y3, y4],
               [d1, d2, m1, m2, y3, y4], [m1, m2, d1, d2, y3, y4],
               [y1, y2, y3, y4, m1, m2, d1, d2], [y1, y2, y3, y4, d1, d2, m1, m2],
               [y3, y4, m1, m2, d1, d2], [y3, y4, d1, d2, m1, m2],
               [d2], [m2]} \<and>
            distinct (generate_date_variations it [d1, d2, m1, m2, y1, y2, y3, y4])) \<and>
         set (generate_date_variations it ''15031990'') =
           {''15'', ''03'', ''1990'', ''90'', ''990'', ''1503'', ''0315'', ''15031990'',
            ''03151990'', ''150390'', ''031590'', ''19900315'', ''19901503'', ''900315'',
            ''901503'', ''5'', ''3''} \<and>
         length (generate_date_variations it ''15031990'') = 17"
proof -
  have d: "distinct (generate_date_variations it date)" for date
    using assms by (simp add: generate_date_variations_def set_iter_distinct)
  have g: "set (generate_date_variations it [d1, d2, m1, m2, y1, y2, y3, y4]) =
              {[d1, d2], [m1, m2], [y1, y2, y3, y4], [y3, y4], [y2, y3, y4],
               [d1, d2, m1, m2], [m1, m2, d1, d2],
               [d1, d2, m1, m2, y1, y2, y3, y4], [m1, m2, d1, d2, y1, y2, y3, y4],
               [d1, d2, m1, m2, y3, y4], [m1, m2, d1, d2, y3, y4],
               [y1, y2, y3, y4, m1, m2, d1, d2], [y1, y2, y3, y4, d1, d2, m1, m2],
               [y3, y4, m1, m2, d1, d2], [y3, y4, d1, d2, m1, m2],
               [d2], [m2]}" for d1 d2 m1 m2 y1 y2 y3 y4
    by (simp add: set_generate_date_variations [OF assms] date_variation_list_def Let_def)
  have c: "set (generate_date_variations it ''15031990'') =
           {''15'', ''03'', ''1990'', ''90'', ''990'', ''1503'', ''0315'', ''15031990'',
            ''03151990'', ''150390'', ''031590'', ''19900315'', ''19901503'', ''900315'',
            ''901503'', ''5'', ''3''}"
    by (simp add: set_generate_date_variations [OF assms] date_variation_list_def Let_def)
  have "card (set (generate_date_variations it ''15031990'')) = 17"
    unfolding c by simp
  then have l: "length (generate_date_variations it ''15031990'') = 17"
    using d [of "''15031990''"] by (simp add: distinct_card)
  show ?thesis
    by (intro conjI allI) (rule g d c l)+
qed

theorem generate_date_variations_exact_witness:
  "set_iter_ok (sorted_list_of_set :: string set \<Rightarrow> string list) \<and>
   set (generate_date_variations sorted_list_of_set ''01012000'') =
     {''01'', ''2000'', ''00'', ''000'', ''0101'', ''01012000'', ''010100'',
      ''20000101'', ''000101'', ''1''} \<and>
   distinct (generate_date_variations sorted_list_of_set ''01012000'')"
  using generate_date_variations_exact [OF set_iter_ok_sorted]
  by (auto simp: set_iter_ok_sorted)

text \<open>
  C2, as the specification states it, fails: a string of eight characters is expanded
  whether or not the characters are digits, the guard of the expander being
  \<^verbatim>\<open>if not date or len(date) != 8\<close>.
\<close>

theorem date_nondigit_counterexample:
  "generate_date_variations sorted_list_of_set ''abcdefgh'' \<noteq> []"
proof
  assume "generate_date_variations sorted_list_of_set ''abcdefgh'' = []"
  then have "set (generate_date_variations sorted_list_of_set ''abcdefgh'') = {}" by simp
  then show False
    by (simp add: set_generate_date_variations [OF set_iter_ok_sorted]
        date_variation_list_def Let_def)
qed

text \<open>
  C2, amended. The expander returns the empty list exactly for the inputs whose length is
  not eight, the empty (absent) input among them.
\<close>

theorem generate_date_variations_empty_iff:
  assumes "set_iter_ok it"
  shows "generate_date_variations it date = [] \<longleftrightarrow> length date \<noteq> 8"
proof
  assume e: "generate_date_variations it date = []"
  show "length date \<noteq> 8"
  proof
    assume l: "length date = 8"
    have "set (generate_date_variations it date) = set (date_variation_list date)"
      by (rule set_generate_date_variations [OF assms l])
    with e show False by (simp add: date_variation_list_def Let_def)
  qed
next
  assume "length date \<noteq> 8"
  then show "generate_date_variations it date = []"
    by (simp add: generate_date_variations_def)
qed

theorem generate_date_variations_empty_iff_witness:
  "set_iter_ok (sorted_list_of_set :: string set \<Rightarrow> string list) \<and>
   generate_date_variations sorted_list_of_set ''1503199'' = [] \<and>
   generate_date_variations sorted_list_of_set [] = [] \<and>
   generate_date_variations sorted_list_of_set ''1503199x'' \<noteq> []"
  using generate_date_variations_empty_iff [OF set_iter_ok_sorted, of "''1503199''"]
    generate_date_variations_empty_iff [OF set_iter_ok_sorted, of "[]"]
    generate_date_variations_empty_iff [OF set_iter_ok_sorted, of "''1503199x''"]
  by (simp add: set_iter_ok_sorted)

subsection \<open>Leet transformer\<close>

text \<open>
  C3, as the specification states it, fails: the default map holds \<^verbatim>\<open>'s': '5'\<close>, so both
  letters \<open>s\<close> of \<^verbatim>\<open>"password"\<close> are replaced and the result is not \<^verbatim>\<open>"p4ssw0rd"\<close>.
\<close>

theorem make_leet_password_counterexample:
  "make_leet default_leet ''password'' \<noteq> ''p4ssw0rd''"
  by (simp add: make_leet_def default_leet_def lower_def lower_char_def isupper_def replace_def)

text \<open>
  C3, amended. With the default leet map the transformer maps \<^verbatim>\<open>"password"\<close> to exactly
  \<^verbatim>\<open>"p455w0rd"\<close>.
\<close>

theorem make_leet_password:
  "make_leet default_leet ''password'' = ''p455w0rd''"
  by (simp add: make_leet_def default_leet_def lower_def lower_char_def isupper_def replace_def)

text \<open>
  C10. With the default map the transformer is idempotent: a second pass over its own
  output changes nothing.
\<close>

theorem make_leet_default_idempotent:
  "make_leet default_leet (make_leet default_leet w) = make_leet default_leet w"
proof (induction w)
  case Nil
  show ?case by (simp add: make_leet_Nil)
next
  case (Cons c w)
  have "make_leet default_leet (c # w) = make_leet default_leet [c] @ make_leet default_leet w"
    using make_leet_append [of default_leet "[c]" w] by simp
  then show ?case
    by (simp add: make_leet_append make_leet_default_single_idem Cons.IH)
qed

subsection \<open>Base-word generator\<close>




subsection \<open>Length bounds, improver and merger\<close>

lemma merged_eq:
  "fold (\<lambda>file merged.
           case fs file of None \<Rightarrow> merged
           | Some lines \<Rightarrow> merged \<union> set (read_words lines)) files M =
   M \<union> (\<Union>file \<in> set files. case fs file of None \<Rightarrow> {} | Some lines \<Rightarrow> set (read_words lines))"
  by (induction files arbitrary: M) (auto split: option.splits)

lemma finite_merged:
  "finite M \<Longrightarrow> finite (fold (\<lambda>file merged.
                      case fs file of None \<Rightarrow> merged
                      | Some lines \<Rightarrow> merged \<union> set (read_words lines)) files M)"
  by (induction files arbitrary: M) (auto split: option.splits)

lemma set_merge_wordlists:
  "set (merge_wordlists config fs files) =
     {w \<in> (\<Union>file \<in> set files. case fs file of None \<Rightarrow> {} | Some lines \<Rightarrow> set (read_words lines)).
        min_length config \<le> int (length w) \<and> int (length w) \<le> max_length config}"
proof -
  have "finite (fold (\<lambda>file merged.
                      case fs file of None \<Rightarrow> merged
                      | Some lines \<Rightarrow> merged \<union> set (read_words lines)) files {})"
    by (rule finite_merged) simp
  then show ?thesis
    by (simp add: merge_wordlists_def export_txt_def Let_def merged_eq)
qed

lemma generate_combinations_base:
  assumes "set_iter_ok it" "w \<in> set (generate_base_words it p)"
    "min_length config \<le> int (length w)" "int (length w) \<le> max_length config"
  shows "w \<in> generate_combinations it leet config p"
  using assms unfolding generate_combinations_def Let_def by simp

lemma improve_wordlist_keeps:
  assumes "fs input_file = Some lines"
    and "int (length (read_words lines)) \<le> threshold \<or> lower answer = ''y''"
    and "w \<in> set (read_words lines)"
    and "min_length config \<le> int (length w)" "int (length w) \<le> max_length config"
  shows "w \<in> improve_wordlist leet config threshold fs answer input_file"
  using assms unfolding improve_wordlist_def Let_def by auto

lemma read_words_example:
  "read_words [''  password  '', [], ''abc''] = [''password'', ''abc'']"
  by code_simp

lemma read_words_replicate:
  "strip x = x \<Longrightarrow> x \<noteq> [] \<Longrightarrow> read_words (replicate n x) = replicate n x"
  by (simp add: read_words_def)

lemma strip_password: "strip ''password'' = ''password''"
  by code_simp

lemma johndoe_base:
  "''johndoe'' \<in> set (generate_base_words sorted_list_of_set
      (empty_profile\<lparr>name := ''john'', surname := ''doe'', birthdate := ''15031990''\<rparr>))"
  by (simp add: set_generate_base_words [OF set_iter_ok_sorted] base_word_list_def
      empty_profile_def)

text \<open>
  C4. Every token of the set returned by \<^verbatim>\<open>generate_combinations\<close> has a length between
  \<open>min_length\<close> and \<open>max_length\<close>, both included, for every profile and configuration; so
  has every token of the set returned by \<^verbatim>\<open>improve_wordlist\<close> and every token written by
  \<^verbatim>\<open>merge_wordlists\<close>.
\<close>

theorem length_bounds:
  "(\<forall>t \<in> generate_combinations it leet config profile.
      min_length config \<le> int (length t) \<and> int (length t) \<le> max_length config) \<and>
   (\<forall>t \<in> improve_wordlist leet config threshold fs answer input_file.
      min_length config \<le> int (length t) \<and> int (length t) \<le> max_length config) \<and>
   (\<forall>t \<in> set (merge_wordlists config fs files).
      min_length config \<le> int (length t) \<and> int (length t) \<le> max_length config)"
proof (intro conjI)
  show "\<forall>t \<in> generate_combinations it leet config profile.
      min_length config \<le> int (length t) \<and> int (length t) \<le> max_length config"
    unfolding generate_combinations_def Let_def by simp
  show "\<forall>t \<in> improve_wordlist leet config threshold fs answer input_file.
      min_length config \<le> int (length t) \<and> int (length t) \<le> max_length config"
    unfolding improve_wordlist_def Let_def by (simp split: option.splits)
  show "\<forall>t \<in> set (merge_wordlists config fs files).
      min_length config \<le> int (length t) \<and> int (length t) \<le> max_length config"
    by (simp add: set_merge_wordlists)
qed

theorem length_bounds_witness:
  "''johndoe'' \<in> generate_combinations sorted_list_of_set default_leet default_config
      (empty_profile\<lparr>name := ''john'', surname := ''doe'', birthdate := ''15031990''\<rparr>) \<and>
   min_length default_config \<le> int (length ''johndoe'') \<and>
   int (length ''johndoe'') \<le> max_length default_config \<and>
   ''password'' \<in> improve_wordlist default_leet default_config 1000
      [''words.txt'' \<mapsto> [''  password  '', [], ''abc'']] [] ''words.txt'' \<and>
   ''abc'' \<notin> improve_wordlist default_leet default_config 1000
      [''words.txt'' \<mapsto> [''  password  '', [], ''abc'']] [] ''words.txt'' \<and>
   ''password'' \<in> set (merge_wordlists default_config
      [''words.txt'' \<mapsto> [''  password  '', [], ''abc'']] [''words.txt'', ''b.txt'']) \<and>
   ''abc'' \<notin> set (merge_wordlists default_config
      [''words.txt'' \<mapsto> [''  password  '', [], ''abc'']] [''words.txt'', ''b.txt''])"
proof -
  have m1: "''johndoe'' \<in> generate_combinations sorted_list_of_set default_leet default_config
      (empty_profile\<lparr>name := ''john'', surname := ''doe'', birthdate := ''15031990''\<rparr>)"
    by (rule generate_combinations_base [OF set_iter_ok_sorted johndoe_base])
      (simp_all add: default_config_def)
  have m2: "''password'' \<in> improve_wordlist default_leet default_config 1000
      [''words.txt'' \<mapsto> [''  password  '', [], ''abc'']] [] ''words.txt''"
    by (rule improve_wordlist_keeps [where lines = "[''  password  '', [], ''abc'']"])
      (simp_all add: read_words_example default_config_def)
  have m3: "''password'' \<in> set (merge_wordlists default_config
      [''words.txt'' \<mapsto> [''  password  '', [], ''abc'']] [''words.txt'', ''b.txt''])"
    by (simp add: set_merge_wordlists read_words_example default_config_def)
  note b = length_bounds [of sorted_list_of_set default_leet default_config
      "empty_profile\<lparr>name := ''john'', surname := ''doe'', birthdate := ''15031990''\<rparr>"
      1000 "[''words.txt'' \<mapsto> [''  password  '', [], ''abc'']]" "[]" "''words.txt''"
      "[''words.txt'', ''b.txt'']"]
  have n2: "''abc'' \<notin> improve_wordlist default_leet default_config 1000
      [''words.txt'' \<mapsto> [''  password  '', [], ''abc'']] [] ''words.txt''"
    using b by (auto simp: default_config_def)
  have n3: "''abc'' \<notin> set (merge_wordlists default_config
      [''words.txt'' \<mapsto> [''  password  '', [], ''abc'']] [''words.txt'', ''b.txt''])"
    using b by (auto simp: default_config_def)
  show ?thesis
    using m1 m2 m3 n2 n3 b by (simp add: default_config_def)
qed

text \<open>
  C7, as the specification states it, fails. With the default threshold of 1000 words, a
  list of 1001 words and the answer \<^verbatim>\<open>n\<close> at the prompt, \<^verbatim>\<open>improve_wordlist\<close> returns the
  empty set, although the word \<^verbatim>\<open>password\<close> of the input has a length within the bounds.
\<close>

theorem improve_wordlist_abort_counterexample:
  "''password'' \<in> set (read_words (replicate 1001 ''password'')) \<and>
   min_length default_config \<le> int (length ''password'') \<and>
   int (length ''password'') \<le> max_length default_config \<and>
   ''password'' \<notin> improve_wordlist default_leet default_config 1000
      [''words.txt'' \<mapsto> replicate 1001 ''password''] ''n'' ''words.txt''"
proof -
  have r: "read_words (replicate 1001 ''password'') = replicate 1001 ''password''"
    by (rule read_words_replicate) (simp_all add: strip_password)
  have l: "lower ''n'' \<noteq> ''y''" by code_simp
  show ?thesis
    by (simp add: r l improve_wordlist_def default_config_def)
qed

text \<open>
  C7, amended. When the run is not given up, that is when the input file is read and
  either it holds no more words than the threshold or the user answers \<^verbatim>\<open>y\<close>, every word
  of the input whose length is between \<open>min_length\<close> and \<open>max_length\<close> is in the set
  returned by \<^verbatim>\<open>improve_wordlist\<close>.
\<close>

theorem improve_wordlist_superset:
  assumes "fs input_file = Some lines"
    and "int (length (read_words lines)) \<le> threshold \<or> lower answer = ''y''"
  shows "\<forall>w \<in> set (read_words lines).
           min_length config \<le> int (length w) \<and> int (length w) \<le> max_length config \<longrightarrow>
           w \<in> improve_wordlist leet config threshold fs answer input_file"
  using assms by (auto intro: improve_wordlist_keeps)

theorem improve_wordlist_superset_witness:
  "[''words.txt'' \<mapsto> [''  password  '', [], ''abc'']] ''words.txt'' =
     Some [''  password  '', [], ''abc''] \<and>
   int (length (read_words [''  password  '', [], ''abc''])) \<le> 1000 \<and>
   ''password'' \<in> set (read_words [''  password  '', [], ''abc'']) \<and>
   min_length default_config \<le> int (length ''password'') \<and>
   int (length ''password'') \<le> max_length default_config \<and>
   ''password'' \<in> improve_wordlist default_leet default_config 1000
      [''words.txt'' \<mapsto> [''  password  '', [], ''abc'']] [] ''words.txt''"
  using improve_wordlist_superset [of "[''words.txt'' \<mapsto> [''  password  '', [], ''abc'']]"
      "''words.txt''" "[''  password  '', [], ''abc'']" 1000 "[]"
      default_config default_leet]
  by (simp add: read_words_example default_config_def)

text \<open>
  C8. \<^verbatim>\<open>merge_wordlists\<close> writes the union of the words of the files that could be read,
  filtered by length: the tokens written are exactly the words of that union with a length
  within the bounds, no token is written twice, and merging two files in either order
  writes the same output.
\<close>

theorem merge_wordlists_set_union:
  "merge_wordlists config fs [a, b] = merge_wordlists config fs [b, a] \<and>
   distinct (merge_wordlists config fs files) \<and>
   set (merge_wordlists config fs files) =
     {w \<in> (\<Union>file \<in> set files. case fs file of None \<Rightarrow> {} | Some lines \<Rightarrow> set (read_words lines)).
        min_length config \<le> int (length w) \<and> int (length w) \<le> max_length config}"
proof (intro conjI)
  have "fold (\<lambda>file merged.
           case fs file of None \<Rightarrow> merged
           | Some lines \<Rightarrow> merged \<union> set (read_words lines)) [a, b] {} =
        fold (\<lambda>file merged.
           case fs file of None \<Rightarrow> merged
           | Some lines \<Rightarrow> merged \<union> set (read_words lines)) [b, a] {}"
    unfolding merged_eq by auto
  then show "merge_wordlists config fs [a, b] = merge_wordlists config fs [b, a]"
    by (simp only: merge_wordlists_def Let_def)
  show "distinct (merge_wordlists config fs files)"
    by (simp add: merge_wordlists_def export_txt_def Let_def)
  show "set (merge_wordlists config fs files) =
     {w \<in> (\<Union>file \<in> set files. case fs file of None \<Rightarrow> {} | Some lines \<Rightarrow> set (read_words lines)).
        min_length config \<le> int (length w) \<and> int (length w) \<le> max_length config}"
    by (rule set_merge_wordlists)
qed

end
